theory Spec2Isabelle
  imports
    Complex_Main
    "HOL-Library.AList"
    "HOL-Library.Char_ord"
    "HOL-Library.List_Lexorder"
    "HOL-Library.Multiset"
    "HOL-Library.Product_Lexorder"
begin

section \<open>Python floats (IEEE 754 binary64)\<close>

text \<open>
  Every number the application handles is a Python \<open>float\<close>: \<open>parse_float\<close> returns
  \<open>float(value)\<close>, the table columns are \<open>REAL\<close>, and numpy works on \<open>float64\<close> arrays.
  A finite float is \<open>Fin m e\<close>, the number \<open>m * 2 ^ e\<close>, kept in lowest terms (\<open>m\<close> odd, or
  \<open>Fin 0 0\<close> for zero); the other values are the two infinities and NaN.  The sign of a zero
  is not kept: \<open>-0.0 == 0.0\<close> in Python, and the program never divides by a zero.

  Each arithmetic operation computes the exact result and rounds it once to the nearest
  binary64 value, ties to even, as IEEE 754 prescribes for \<open>+ - * /\<close>.
\<close>

datatype pyfloat = Fin int int | PInf | NInf | NaN

function bitlen :: "int \<Rightarrow> int" where
  \<comment> \<open>the number of bits of a positive integer\<close>
  "bitlen n = (if n \<le> 0 then 0 else 1 + bitlen (n div 2))"
  by pat_completeness auto
termination
  by (relation "measure nat") auto

declare bitlen.simps [simp del]

function strip_zeros :: "int \<Rightarrow> int \<Rightarrow> int \<times> int" where
  "strip_zeros m e =
     (if m = 0 then (0, 0)
      else if even m then strip_zeros (m div 2) (e + 1)
      else (m, e))"
  by pat_completeness auto
termination
  by (relation "measure (\<lambda>(m, e). nat \<bar>m\<bar>)") auto

declare strip_zeros.simps [simp del]

definition finish :: "int \<Rightarrow> int \<Rightarrow> int \<Rightarrow> pyfloat" where
  \<comment> \<open>the float of sign \<open>s\<close> and magnitude \<open>q * 2 ^ e\<close>, where \<open>q\<close> has at most 53 bits
     and \<open>e \<ge> -1074\<close>: infinite from \<open>2 ^ 1024\<close> on\<close>
  "finish s q e =
     (if q = 0 then Fin 0 0
      else if bitlen q + e > 1024 then (if s < 0 then NInf else PInf)
      else (case strip_zeros (s * q) e of (m, e') \<Rightarrow> Fin m e'))"

definition fl :: "int \<Rightarrow> int \<Rightarrow> pyfloat" where
  \<comment> \<open>\<open>n * 2 ^ e\<close> rounded to binary64: 53 significant bits, no bit below \<open>2 ^ -1074\<close>,
     round half to even\<close>
  "fl n e =
     (let a = \<bar>n\<bar>;
          k = max (bitlen a - 53) (- 1074 - e)
      in if k \<le> 0 then finish (sgn n) a e
         else
           let q = a div 2 ^ nat k;
               r = a mod 2 ^ nat k;
               h = 2 ^ (nat k - 1);
               q' = (if r > h \<or> (r = h \<and> odd q) then q + 1 else q)
           in finish (sgn n) q' (e + k))"

definition fl_quot :: "int \<Rightarrow> int \<Rightarrow> int \<Rightarrow> pyfloat" where
  \<comment> \<open>\<open>(p / d) * 2 ^ e\<close> rounded to binary64, for \<open>d \<noteq> 0\<close>: the quotient is computed to at
     least 55 bits and a sticky bit records a remainder\<close>
  "fl_quot p d e =
     (let a = \<bar>p\<bar>; b = \<bar>d\<bar>;
          k = nat (max 0 (bitlen b + 55 - bitlen a));
          q = (a * 2 ^ k) div b;
          sticky = (if (a * 2 ^ k) mod b = 0 then 0 else 1)
      in fl (sgn p * sgn d * (2 * q + sticky)) (e - int k - 1))"

definition zero :: pyfloat where "zero = Fin 0 0"
definition one :: pyfloat where "one = Fin 1 0"

definition float_of_int :: "int \<Rightarrow> pyfloat" where
  "float_of_int i = fl i 0"

fun fneg :: "pyfloat \<Rightarrow> pyfloat" where
  "fneg (Fin m e) = Fin (- m) e"
| "fneg PInf = NInf"
| "fneg NInf = PInf"
| "fneg NaN = NaN"

fun fadd :: "pyfloat \<Rightarrow> pyfloat \<Rightarrow> pyfloat" where
  "fadd (Fin m1 e1) (Fin m2 e2) =
     (let e = min e1 e2 in fl (m1 * 2 ^ nat (e1 - e) + m2 * 2 ^ nat (e2 - e)) e)"
| "fadd NaN _ = NaN"
| "fadd _ NaN = NaN"
| "fadd PInf NInf = NaN"
| "fadd NInf PInf = NaN"
| "fadd PInf _ = PInf"
| "fadd _ PInf = PInf"
| "fadd NInf _ = NInf"
| "fadd _ NInf = NInf"

definition fsub :: "pyfloat \<Rightarrow> pyfloat \<Rightarrow> pyfloat" where
  "fsub a b = fadd a (fneg b)"

fun fsgn :: "pyfloat \<Rightarrow> int" where
  "fsgn (Fin m e) = sgn m"
| "fsgn PInf = 1"
| "fsgn NInf = - 1"
| "fsgn NaN = 0"

fun fmul :: "pyfloat \<Rightarrow> pyfloat \<Rightarrow> pyfloat" where
  "fmul (Fin m1 e1) (Fin m2 e2) = fl (m1 * m2) (e1 + e2)"
| "fmul NaN _ = NaN"
| "fmul _ NaN = NaN"
| "fmul a b =
     (if fsgn a * fsgn b = 0 then NaN else if fsgn a * fsgn b < 0 then NInf else PInf)"

fun fdiv :: "pyfloat \<Rightarrow> pyfloat \<Rightarrow> pyfloat" where
  "fdiv (Fin m1 e1) (Fin m2 e2) =
     (if m2 = 0 then (if m1 = 0 then NaN else if m1 < 0 then NInf else PInf)
      else fl_quot m1 m2 (e1 - e2))"
| "fdiv NaN _ = NaN"
| "fdiv _ NaN = NaN"
| "fdiv (Fin m e) _ = Fin 0 0"
| "fdiv a (Fin m e) = (if fsgn a * (if m < 0 then - 1 else 1) < 0 then NInf else PInf)"
| "fdiv _ _ = NaN"

text \<open>Comparisons are exact; every comparison with NaN is false.\<close>

fun fle :: "pyfloat \<Rightarrow> pyfloat \<Rightarrow> bool" where
  "fle (Fin m1 e1) (Fin m2 e2) =
     (let e = min e1 e2 in m1 * 2 ^ nat (e1 - e) \<le> m2 * 2 ^ nat (e2 - e))"
| "fle NaN _ = False"
| "fle _ NaN = False"
| "fle NInf _ = True"
| "fle _ PInf = True"
| "fle _ _ = False"

fun flt :: "pyfloat \<Rightarrow> pyfloat \<Rightarrow> bool" where
  "flt (Fin m1 e1) (Fin m2 e2) =
     (let e = min e1 e2 in m1 * 2 ^ nat (e1 - e) < m2 * 2 ^ nat (e2 - e))"
| "flt NaN _ = False"
| "flt _ NaN = False"
| "flt PInf _ = False"
| "flt _ NInf = False"
| "flt _ _ = True"

definition fgt :: "pyfloat \<Rightarrow> pyfloat \<Rightarrow> bool" where
  "fgt a b = flt b a"

fun py_round :: "pyfloat \<Rightarrow> nat \<Rightarrow> pyfloat" where
  \<comment> \<open>\<open>round(x, ndigits)\<close>: the decimal with \<open>ndigits\<close> places nearest to the exact value
     of \<open>x\<close> (half to even), converted back to the nearest float; NaN and the infinities
     round to themselves\<close>
  "py_round (Fin m e) nd =
     (if e \<ge> 0 then Fin m e
      else
        let n = m * 10 ^ nd;
            d = 2 ^ nat (- e);
            q = n div d;
            r = n mod d;
            q' = (if 2 * r > d \<or> (2 * r = d \<and> odd q) then q + 1 else q)
        in if q' = 0 then Fin 0 0 else fl_quot q' (10 ^ nd) 0)"
| "py_round x nd = x"

definition is_nan :: "pyfloat \<Rightarrow> bool" where
  "is_nan x = (x = NaN)"

definition is_zero :: "pyfloat \<Rightarrow> bool" where
  "is_zero x = (case x of Fin m e \<Rightarrow> m = 0 | _ \<Rightarrow> False)"

subsection \<open>The real number a float stands for\<close>




section \<open>Exceptions, request bodies and the runtime\<close>

datatype py_error =
    AttributeError | OverflowError | KeyError | ValueError | ZeroDivisionError
  | IntegrityError | LinAlgError

definition bind :: "py_error + 'a \<Rightarrow> ('a \<Rightarrow> py_error + 'b) \<Rightarrow> py_error + 'b" where
  \<comment> \<open>sequencing: an exception raised by the first computation leaves the function\<close>
  "bind r f = (case r of Inl ex \<Rightarrow> Inl ex | Inr v \<Rightarrow> f v)"

text \<open>
  What \<open>request.get_json(silent=True)\<close> returns: a decoded JSON value, or \<open>None\<close> for a body
  that is not JSON.  Python's decoder also accepts the literals \<open>NaN\<close>, \<open>Infinity\<close> and
  \<open>-Infinity\<close>, so a \<open>JFloat\<close> carries any float.
\<close>

datatype json =
    JNull | JBool bool | JInt int | JFloat pyfloat | JStr string
  | JList "json list" | JDict "(string \<times> json) list"

text \<open>
  The library code the handlers call and whose results are not fixed by the program text:
  \<open>float\<close> applied to a string (\<open>None\<close> stands for its \<open>ValueError\<close>),
  \<open>numpy.linalg.lstsq\<close> (which raises \<open>LinAlgError\<close> when its decomposition does not
  converge) and the inner product of a row of the design matrix with the coefficient
  vector as \<open>x.dot(coeffs)\<close> accumulates it.
\<close>

record runtime =
  float_of_str :: "string \<Rightarrow> pyfloat option"
  lstsq :: "pyfloat list list \<Rightarrow> pyfloat list \<Rightarrow> py_error + pyfloat list"
  dot :: "pyfloat list \<Rightarrow> pyfloat list \<Rightarrow> pyfloat"

fun truthy :: "json \<Rightarrow> bool" where
  "truthy JNull = False"
| "truthy (JBool b) = b"
| "truthy (JInt i) = (i \<noteq> 0)"
| "truthy (JFloat x) = (\<not> is_zero x)"
| "truthy (JStr s) = (s \<noteq> [])"
| "truthy (JList vs) = (vs \<noteq> [])"
| "truthy (JDict kvs) = (kvs \<noteq> [])"

definition body_or_empty :: "json option \<Rightarrow> json" where
  \<comment> \<open>\<open>request.get_json(silent=True) or {}\<close>\<close>
  "body_or_empty req =
     (case req of None \<Rightarrow> JDict [] | Some v \<Rightarrow> if truthy v then v else JDict [])"

definition dict_get :: "json \<Rightarrow> string \<Rightarrow> py_error + json" where
  \<comment> \<open>\<open>data.get(key)\<close>: only a dict has the method\<close>
  "dict_get data k =
     (case data of
        JDict kvs \<Rightarrow> Inr (case map_of kvs k of None \<Rightarrow> JNull | Some v \<Rightarrow> v)
      | _ \<Rightarrow> Inl AttributeError)"

fun parse_float :: "runtime \<Rightarrow> json \<Rightarrow> py_error + pyfloat option" where
  \<comment> \<open>\<open>float(value)\<close>, with \<open>TypeError\<close> and \<open>ValueError\<close> caught; the \<open>OverflowError\<close>
     of an integer beyond the float range is not caught\<close>
  "parse_float R JNull = Inr None"
| "parse_float R (JBool b) = Inr (Some (if b then one else zero))"
| "parse_float R (JInt i) =
     (case float_of_int i of
        PInf \<Rightarrow> Inl OverflowError
      | NInf \<Rightarrow> Inl OverflowError
      | x \<Rightarrow> Inr (Some x))"
| "parse_float R (JFloat x) = Inr (Some x)"
| "parse_float R (JStr s) = Inr (float_of_str R s)"
| "parse_float R (JList vs) = Inr None"
| "parse_float R (JDict kvs) = Inr None"

section \<open>Validation\<close>

type_synonym errors = "(string \<times> string) list"
type_synonym parsed = "(string \<times> pyfloat) list"

definition field :: "runtime \<Rightarrow> json \<Rightarrow> string \<Rightarrow> py_error + pyfloat option" where
  \<comment> \<open>\<open>parse_float(data.get(key))\<close>\<close>
  "field R data k = bind (dict_get data k) (parse_float R)"

text \<open>
  The validators hold the pair of dicts \<open>(errors, parsed)\<close>; each field's
  \<open>if\<close>/\<open>elif\<close>/\<open>else\<close> block adds an entry to one of the two.
\<close>

definition check_avg_glucose :: "pyfloat option \<Rightarrow> errors \<times> parsed \<Rightarrow> errors \<times> parsed" where
  "check_avg_glucose v st =
     (case st of (errors, parsed) \<Rightarrow>
        (case v of
           None \<Rightarrow> (AList.update ''avg_glucose'' ''Average glucose must be a number.'' errors, parsed)
         | Some avg_glucose \<Rightarrow>
             if fle avg_glucose zero
             then (AList.update ''avg_glucose'' ''Average glucose must be > 0.'' errors, parsed)
             else (errors, AList.update ''avg_glucose'' avg_glucose parsed)))"

definition check_glucose_sd :: "pyfloat option \<Rightarrow> errors \<times> parsed \<Rightarrow> errors \<times> parsed" where
  "check_glucose_sd v st =
     (case st of (errors, parsed) \<Rightarrow>
        (case v of
           None \<Rightarrow> (AList.update ''glucose_sd'' ''Glucose SD must be a number.'' errors, parsed)
         | Some glucose_sd \<Rightarrow>
             if flt glucose_sd zero
             then (AList.update ''glucose_sd'' ''Glucose SD must be >= 0.'' errors, parsed)
             else (errors, AList.update ''glucose_sd'' glucose_sd parsed)))"

definition check_difficulty :: "pyfloat option \<Rightarrow> errors \<times> parsed \<Rightarrow> errors \<times> parsed" where
  "check_difficulty v st =
     (case st of (errors, parsed) \<Rightarrow>
        (case v of
           None \<Rightarrow> (AList.update ''difficulty'' ''Difficulty must be a number.'' errors, parsed)
         | Some difficulty \<Rightarrow>
             if \<not> (fle one difficulty \<and> fle difficulty (Fin 5 1))
             then (AList.update ''difficulty'' ''Difficulty must be between 1 and 10.'' errors, parsed)
             else (errors, AList.update ''difficulty'' difficulty parsed)))"

definition check_score :: "pyfloat option \<Rightarrow> errors \<times> parsed \<Rightarrow> errors \<times> parsed" where
  "check_score v st =
     (case st of (errors, parsed) \<Rightarrow>
        (case v of
           None \<Rightarrow> (AList.update ''score'' ''Score must be a number.'' errors, parsed)
         | Some score \<Rightarrow>
             if \<not> (fle zero score \<and> fle score (Fin 25 2))
             then (AList.update ''score'' ''Score must be between 0 and 100.'' errors, parsed)
             else (errors, AList.update ''score'' score parsed)))"

definition validate_entry :: "runtime \<Rightarrow> json \<Rightarrow> py_error + errors \<times> parsed" where
  "validate_entry R data =
     bind (field R data ''avg_glucose'') (\<lambda>avg_glucose.
       let st = check_avg_glucose avg_glucose ([], []) in
       bind (field R data ''glucose_sd'') (\<lambda>glucose_sd.
         let st = check_glucose_sd glucose_sd st in
         bind (field R data ''difficulty'') (\<lambda>difficulty.
           let st = check_difficulty difficulty st in
           bind (field R data ''score'') (\<lambda>score.
             Inr (check_score score st)))))"

definition validate_predict :: "runtime \<Rightarrow> json \<Rightarrow> py_error + errors \<times> parsed" where
  "validate_predict R data =
     bind (field R data ''avg_glucose'') (\<lambda>avg_glucose.
       let st = check_avg_glucose avg_glucose ([], []) in
       bind (field R data ''glucose_sd'') (\<lambda>glucose_sd.
         let st = check_glucose_sd glucose_sd st in
         bind (field R data ''difficulty'') (\<lambda>difficulty.
           Inr (check_difficulty difficulty st))))"

definition lookup :: "(string \<times> 'a) list \<Rightarrow> string \<Rightarrow> py_error + 'a" where
  \<comment> \<open>\<open>d[key]\<close>\<close>
  "lookup d k = (case map_of d k of None \<Rightarrow> Inl KeyError | Some v \<Rightarrow> Inr v)"

section \<open>The clock\<close>

text \<open>
  \<open>now_iso()\<close> is \<open>datetime.now(timezone.utc).astimezone().isoformat()\<close>: the instant is read
  in UTC, converted to the local time zone of the machine, and written as local date and
  time followed by the zone's UTC offset.  The two readings the function takes from the
  machine are its arguments here: the instant, in microseconds since 1970-01-01T00:00:00
  UTC, and the offset of the local zone at that instant, in minutes.  The date is the
  proleptic Gregorian one; \<open>isoformat\<close> leaves the microseconds out when they are zero.
\<close>

definition civil_from_days :: "int \<Rightarrow> int \<times> int \<times> int" where
  \<comment> \<open>year, month and day of the day that many days after 1970-01-01\<close>
  "civil_from_days days =
     (let z = days + 719468;
          era = z div 146097;
          doe = z - era * 146097;
          yoe = (doe - doe div 1460 + doe div 36524 - doe div 146096) div 365;
          doy = doe - (365 * yoe + yoe div 4 - yoe div 100);
          mp = (5 * doy + 2) div 153;
          d = doy - (153 * mp + 2) div 5 + 1;
          m = (if mp < 10 then mp + 3 else mp - 9);
          y = yoe + era * 400 + (if m \<le> 2 then 1 else 0)
      in (y, m, d))"

fun pad :: "nat \<Rightarrow> int \<Rightarrow> string" where
  \<comment> \<open>the last \<open>w\<close> decimal digits of a number, with leading zeros\<close>
  "pad 0 n = []"
| "pad (Suc w) n = pad w (n div 10) @ [''0123456789'' ! nat (n mod 10)]"

definition now_iso :: "int \<Rightarrow> int \<Rightarrow> string" where
  "now_iso utc off =
     (let t = utc + off * 60000000;
          us_day = t mod 86400000000;
          us = us_day mod 1000000
      in case civil_from_days (t div 86400000000) of
           (y, m, d) \<Rightarrow>
             pad 4 y @ ''-'' @ pad 2 m @ ''-'' @ pad 2 d @ ''T''
             @ pad 2 (us_day div 3600000000) @ '':''
             @ pad 2 (us_day div 60000000 mod 60) @ '':''
             @ pad 2 (us_day div 1000000 mod 60)
             @ (if us = 0 then [] else ''.'' @ pad 6 us)
             @ (if off < 0 then ''-'' else ''+'')
             @ pad 2 (\<bar>off\<bar> div 60) @ '':'' @ pad 2 (\<bar>off\<bar> mod 60))"

section \<open>The table \<open>exam_entries\<close>\<close>

record entry =
  entry_id :: int
  created_at :: string
  avg_glucose :: pyfloat
  glucose_sd :: pyfloat
  difficulty :: pyfloat
  score :: pyfloat

text \<open>
  The table is the list of its rows in insertion order.  The program never deletes a row,
  so the \<open>AUTOINCREMENT\<close> key of a new row is one more than the largest key in the table.
  SQLite stores a NaN as \<open>NULL\<close>, which the \<open>NOT NULL\<close> columns refuse.  A database
  that cannot be opened or written is outside the model.
\<close>

type_synonym table = "entry list"

definition next_id :: "table \<Rightarrow> int" where
  "next_id tbl = fold max (map entry_id tbl) 0 + 1"

definition sql_insert ::
  "string \<Rightarrow> pyfloat \<Rightarrow> pyfloat \<Rightarrow> pyfloat \<Rightarrow> pyfloat \<Rightarrow> table \<Rightarrow> py_error + entry \<times> table" where
  "sql_insert created a sd d sc tbl =
     (if is_nan a \<or> is_nan sd \<or> is_nan d \<or> is_nan sc then Inl IntegrityError
      else
        let row = \<lparr>entry_id = next_id tbl, created_at = created, avg_glucose = a,
                   glucose_sd = sd, difficulty = d, score = sc\<rparr>
        in Inr (row, tbl @ [row]))"

definition fetch_entries :: "table \<Rightarrow> entry list" where
  \<comment> \<open>\<open>SELECT * FROM exam_entries ORDER BY created_at ASC, id ASC\<close>; text compares
     byte by byte\<close>
  "fetch_entries tbl = sort_key (\<lambda>r. (created_at r, entry_id r)) tbl"

section \<open>The handlers\<close>

record coefficients =
  coef_intercept :: pyfloat
  coef_avg_glucose :: pyfloat
  coef_glucose_sd :: pyfloat
  coef_difficulty :: pyfloat

record model =
  model_type :: string
  coefficients :: coefficients
  n_training_rows :: nat
  r2 :: "pyfloat option"

record prediction =
  predicted_score :: pyfloat
  model :: model
  "notes" :: "string list"

datatype response =
    Json200 prediction
  | Json201 entry
  | Json400 errors
  | Raised py_error

definition add_entry :: "runtime \<Rightarrow> string \<Rightarrow> json option \<Rightarrow> table \<Rightarrow> response \<times> table" where
  \<comment> \<open>\<open>now\<close> is what \<open>now_iso()\<close> returns during the request\<close>
  "add_entry R now req tbl =
     (let data = body_or_empty req in
      case validate_entry R data of
        Inl ex \<Rightarrow> (Raised ex, tbl)
      | Inr (errors, parsed) \<Rightarrow>
          if errors \<noteq> [] then (Json400 errors, tbl)
          else
            (case bind (lookup parsed ''avg_glucose'') (\<lambda>a.
                  bind (lookup parsed ''glucose_sd'') (\<lambda>sd.
                  bind (lookup parsed ''difficulty'') (\<lambda>d.
                  bind (lookup parsed ''score'') (\<lambda>sc.
                    sql_insert now a sd d sc tbl)))) of
               Inl ex \<Rightarrow> (Raised ex, tbl)
             | Inr (row, tbl') \<Rightarrow> (Json201 row, tbl')))"

subsection \<open>numpy reductions\<close>

text \<open>
  \<open>np.sum\<close> of a \<open>float64\<close> vector is numpy's pairwise summation: fewer than 8 elements
  are added from left to right, up to 128 elements are added in eight interleaved
  accumulators, and a longer vector is split in two.  \<open>np.mean\<close> divides that sum by the
  number of elements.
\<close>

fun add_blocks :: "pyfloat list \<Rightarrow> pyfloat list \<Rightarrow> pyfloat list \<times> pyfloat list" where
  "add_blocks r xs =
     (if length xs < 8 then (r, xs)
      else add_blocks (map2 fadd r (take 8 xs)) (drop 8 xs))"

declare add_blocks.simps [simp del]

function pairwise_sum :: "pyfloat list \<Rightarrow> pyfloat" where
  "pairwise_sum a =
     (if length a < 8 then foldl fadd zero a
      else if length a \<le> 128 then
        (case add_blocks (take 8 a) (drop 8 a) of
           (r, rest) \<Rightarrow>
             foldl fadd
               (fadd (fadd (fadd (r ! 0) (r ! 1)) (fadd (r ! 2) (r ! 3)))
                     (fadd (fadd (r ! 4) (r ! 5)) (fadd (r ! 6) (r ! 7))))
               rest)
      else
        fadd (pairwise_sum (take (length a div 2 - (length a div 2) mod 8) a))
             (pairwise_sum (drop (length a div 2 - (length a div 2) mod 8) a)))"
  by pat_completeness auto
termination
  by (relation "measure length") auto

declare pairwise_sum.simps [simp del]

definition np_sum :: "pyfloat list \<Rightarrow> pyfloat" where
  \<comment> \<open>the reduction starts from the identity 0.0 and adds the pairwise sum to it\<close>
  "np_sum a = fadd zero (pairwise_sum a)"

definition np_mean :: "pyfloat list \<Rightarrow> pyfloat" where
  "np_mean a = fdiv (np_sum a) (float_of_int (int (length a)))"

definition py_truediv :: "pyfloat \<Rightarrow> pyfloat \<Rightarrow> py_error + pyfloat" where
  \<comment> \<open>\<open>a / b\<close> on Python floats\<close>
  "py_truediv a b = (if is_zero b then Inl ZeroDivisionError else Inr (fdiv a b))"

subsection \<open>\<open>predict\<close>\<close>

definition predict :: "runtime \<Rightarrow> json option \<Rightarrow> table \<Rightarrow> response" where
  "predict R req tbl =
     (let data = body_or_empty req in
      case validate_predict R data of
        Inl ex \<Rightarrow> Raised ex
      | Inr (errors, parsed) \<Rightarrow>
          if errors \<noteq> [] then Json400 errors
          else
            let entries = fetch_entries tbl;
                notes = [];
                model = \<lparr>model_type = ''multivariate_linear_regression'',
                         coefficients = \<lparr>coef_intercept = zero, coef_avg_glucose = zero,
                                          coef_glucose_sd = zero, coef_difficulty = zero\<rparr>,
                         n_training_rows = length entries,
                         r2 = None\<rparr>
            in
              if length entries < 3 then
                (if entries \<noteq> [] then
                   let mean_score = np_mean (map score entries);
                       predicted = mean_score;
                       notes = notes @
                         [''Not enough data for regression (need at least 3 rows). '' @
                          ''Returning mean score of existing entries.'']
                   in Json200 \<lparr>predicted_score = py_round predicted 2, model = model,
                                notes = notes\<rparr>
                 else
                   let predicted = zero;
                       notes = notes @
                         [''No data yet. Returning 0 as a placeholder prediction until entries exist.'']
                   in Json200 \<lparr>predicted_score = py_round predicted 2, model = model,
                                notes = notes\<rparr>)
              else
                let x = map (\<lambda>entry. [one, avg_glucose entry, glucose_sd entry, difficulty entry])
                          entries;
                    y = map score entries
                in
                  case lstsq R x y of
                    Inl ex \<Rightarrow> Raised ex
                  | Inr coeffs \<Rightarrow>
                      (case coeffs of
                         [intercept, b_avg, b_sd, b_diff] \<Rightarrow>
                           (case bind (lookup parsed ''avg_glucose'') (\<lambda>a.
                                 bind (lookup parsed ''glucose_sd'') (\<lambda>sd.
                                 bind (lookup parsed ''difficulty'') (\<lambda>d.
                                   let predicted =
                                         fadd (fadd (fadd intercept (fmul b_avg a)) (fmul b_sd sd))
                                              (fmul b_diff d);
                                       y_pred = map (\<lambda>row. dot R row coeffs) x;
                                       ss_res = np_sum (map2 (\<lambda>yi pi. fmul (fsub yi pi) (fsub yi pi))
                                                          y y_pred);
                                       ss_tot = np_sum (map (\<lambda>yi. fmul (fsub yi (np_mean y))
                                                                       (fsub yi (np_mean y))) y)
                                   in
                                     bind (if fgt ss_tot zero
                                           then bind (py_truediv ss_res ss_tot)
                                                  (\<lambda>q. Inr (Some (fsub one q)))
                                           else Inr None) (\<lambda>r2.
                                       Inr \<lparr>predicted_score = py_round predicted 2,
                                            model = model
                                              \<lparr>coefficients :=
                                                 \<lparr>coef_intercept = intercept,
                                                  coef_avg_glucose = b_avg,
                                                  coef_glucose_sd = b_sd,
                                                  coef_difficulty = b_diff\<rparr>,
                                               r2 := (case r2 of None \<Rightarrow> None
                                                      | Some v \<Rightarrow> Some (py_round v 4))\<rparr>,
                                            notes = notes\<rparr>)))) of
                              Inl ex \<Rightarrow> Raised ex
                            | Inr p \<Rightarrow> Json200 p)
                       | _ \<Rightarrow> Raised ValueError))"

section \<open>The least-squares routine\<close>




section \<open>Concrete runtimes, requests and tables\<close>

text \<open>
  The theorems below hold for every runtime.  To apply them to concrete requests one
  runtime is fixed: no string is a number, the fit is the intercept-only model through
  the mean score, and the inner product is accumulated from left to right.
\<close>

definition example_runtime :: runtime where
  "example_runtime =
     \<lparr>float_of_str = (\<lambda>s. None),
      lstsq = (\<lambda>x y. Inr [np_mean y, zero, zero, zero]),
      dot = (\<lambda>row c. foldl fadd zero (map2 fmul row c))\<rparr>"

definition query :: "json option" where
  \<comment> \<open>the request body \<open>{"avg_glucose": 130, "glucose_sd": 20, "difficulty": 6}\<close>\<close>
  "query = Some (JDict [(''avg_glucose'', JInt 130), (''glucose_sd'', JInt 20),
                        (''difficulty'', JInt 6)])"

definition query_parsed :: parsed where
  "query_parsed =
     [(''avg_glucose'', Fin 65 1), (''glucose_sd'', Fin 5 2), (''difficulty'', Fin 3 1)]"

definition scenario_tbl :: table where
  \<comment> \<open>three stored observations: (100, 10, 3, 70), (150, 30, 8, 90), (120, 15, 5, 80)\<close>
  "scenario_tbl =
     [\<lparr>entry_id = 1, created_at = ''2024-05-01T09:00:00+00:00'', avg_glucose = Fin 25 2,
       glucose_sd = Fin 5 1, difficulty = Fin 3 0, score = Fin 35 1\<rparr>,
      \<lparr>entry_id = 2, created_at = ''2024-05-08T09:00:00+00:00'', avg_glucose = Fin 75 1,
       glucose_sd = Fin 15 1, difficulty = Fin 1 3, score = Fin 45 1\<rparr>,
      \<lparr>entry_id = 3, created_at = ''2024-05-15T09:00:00+00:00'', avg_glucose = Fin 15 3,
       glucose_sd = Fin 15 0, difficulty = Fin 5 0, score = Fin 5 4\<rparr>]"




definition float_query :: "json option" where
  \<comment> \<open>the request body \<open>{"difficulty": 6.0, "avg_glucose": 130.0, "glucose_sd": 20.0}\<close>\<close>
  "float_query = Some (JDict [(''difficulty'', JFloat (Fin 3 1)),
                              (''avg_glucose'', JFloat (Fin 65 1)),
                              (''glucose_sd'', JFloat (Fin 5 2))])"

definition bad_entry :: "json option" where
  \<comment> \<open>the request body \<open>{"avg_glucose": -5, "glucose_sd": 10, "difficulty": 11, "score": 70}\<close>\<close>
  "bad_entry = Some (JDict [(''avg_glucose'', JInt (- 5)), (''glucose_sd'', JInt 10),
                            (''difficulty'', JInt 11), (''score'', JInt 70)])"

definition bad_entry_errors :: errors where
  "bad_entry_errors =
     [(''avg_glucose'', ''Average glucose must be > 0.''),
      (''difficulty'', ''Difficulty must be between 1 and 10.'')]"

definition obs_a :: "json option" where
  \<comment> \<open>the request body \<open>{"avg_glucose": 100, "glucose_sd": 10, "difficulty": 3, "score": 70}\<close>\<close>
  "obs_a = Some (JDict [(''avg_glucose'', JInt 100), (''glucose_sd'', JInt 10),
                        (''difficulty'', JInt 3), (''score'', JInt 70)])"

definition obs_b :: "json option" where
  "obs_b = Some (JDict [(''avg_glucose'', JInt 150), (''glucose_sd'', JInt 30),
                        (''difficulty'', JInt 8), (''score'', JInt 90)])"

definition same_row1 :: entry where
  "same_row1 = \<lparr>entry_id = 1, created_at = ''2024-05-22T09:00:00+00:00'', avg_glucose = Fin 25 2,
                 glucose_sd = Fin 5 1, difficulty = Fin 3 0, score = Fin 35 1\<rparr>"

definition same_row2 :: entry where
  "same_row2 = \<lparr>entry_id = 2, created_at = ''2024-05-22T09:00:00+00:00'', avg_glucose = Fin 75 1,
                 glucose_sd = Fin 15 1, difficulty = Fin 1 3, score = Fin 45 1\<rparr>"

definition dst_row1 :: entry where
  \<comment> \<open>recorded at 00:30:00 UTC, local offset +02:00\<close>
  "dst_row1 = \<lparr>entry_id = 1, created_at = ''2024-10-27T02:30:00.250000+02:00'',
                avg_glucose = Fin 25 2, glucose_sd = Fin 5 1, difficulty = Fin 3 0,
                score = Fin 35 1\<rparr>"

definition dst_row2 :: entry where
  \<comment> \<open>recorded forty minutes later, at 01:10:00 UTC, local offset +01:00\<close>
  "dst_row2 = \<lparr>entry_id = 2, created_at = ''2024-10-27T02:10:00.750000+01:00'',
                avg_glucose = Fin 75 1, glucose_sd = Fin 15 1, difficulty = Fin 1 3,
                score = Fin 45 1\<rparr>"

definition nan_query :: "json option" where
  \<comment> \<open>the request body \<open>{"avg_glucose": NaN, "glucose_sd": NaN, "difficulty": 6}\<close>\<close>
  "nan_query = Some (JDict [(''avg_glucose'', JFloat NaN), (''glucose_sd'', JFloat NaN),
                            (''difficulty'', JInt 6)])"

definition nan_entry :: "json option" where
  \<comment> \<open>the request body \<open>{"avg_glucose": NaN, "glucose_sd": 10, "difficulty": 3, "score": 70}\<close>\<close>
  "nan_entry = Some (JDict [(''avg_glucose'', JFloat NaN), (''glucose_sd'', JInt 10),
                            (''difficulty'', JInt 3), (''score'', JInt 70)])"

definition score_85_4 :: pyfloat where
  \<comment> \<open>the float \<open>85.4\<close>\<close>
  "score_85_4 = Fin 3004745376386253 (- 45)"

definition identical_tbl :: table where
  \<comment> \<open>three stored observations with the same score 85.4\<close>
  "identical_tbl =
     [\<lparr>entry_id = 1, created_at = ''2024-05-01T09:00:00+00:00'', avg_glucose = Fin 25 2,
       glucose_sd = Fin 5 1, difficulty = Fin 3 0, score = score_85_4\<rparr>,
      \<lparr>entry_id = 2, created_at = ''2024-05-08T09:00:00+00:00'', avg_glucose = Fin 75 1,
       glucose_sd = Fin 15 1, difficulty = Fin 1 3, score = score_85_4\<rparr>,
      \<lparr>entry_id = 3, created_at = ''2024-05-15T09:00:00+00:00'', avg_glucose = Fin 15 3,
       glucose_sd = Fin 15 0, difficulty = Fin 5 0, score = score_85_4\<rparr>]"

definition identical_x :: "pyfloat list list" where
  \<comment> \<open>the design matrix of \<open>identical_tbl\<close>\<close>
  "identical_x =
     [[one, Fin 25 2, Fin 5 1, Fin 3 0], [one, Fin 75 1, Fin 15 1, Fin 1 3],
      [one, Fin 15 3, Fin 15 0, Fin 5 0]]"





definition dst_utc1 :: int where
  \<comment> \<open>2024-10-27 00:30:00.25 UTC, while the local zone is at +02:00\<close>
  "dst_utc1 = 1729989000250000"

definition dst_utc2 :: int where
  \<comment> \<open>forty minutes and half a second later, when the local zone is back at +01:00\<close>
  "dst_utc2 = 1729991400750000"

section \<open>The float operations on familiar values\<close>

lemma tenth_plus_fifth:
  \<comment> \<open>\<open>0.1 + 0.2 == 0.30000000000000004\<close>\<close>
  "fadd (Fin 3602879701896397 (- 55)) (Fin 3602879701896397 (- 54)) = Fin 1351079888211149 (- 52)"
  by code_simp

lemma one_third:
  \<comment> \<open>\<open>1 / 3 == 0.3333333333333333\<close>\<close>
  "fdiv one (Fin 3 0) = Fin 6004799503160661 (- 54)"
  by code_simp

lemma round_half_cases:
  \<comment> \<open>\<open>round(2.675, 2) == 2.67\<close> (the float is below the decimal) and
     \<open>round(0.125, 2) == 0.12\<close> (an exact tie goes to even)\<close>
  "py_round (Fin 3011782250804019 (- 50)) 2 = Fin 1503076375634903 (- 49)"
  "py_round (Fin 1 (- 3)) 2 = Fin 1080863910568919 (- 53)"
  by code_simp+

lemma float_of_int_limits:
  \<comment> \<open>\<open>float(2 ** 53 + 1) == 2.0 ** 53\<close>; the largest float; the first integer that
     overflows\<close>
  "float_of_int (2 ^ 53 + 1) = Fin 1 53"
  "float_of_int (2 ^ 1024 - 2 ^ 970 - 1) = Fin 9007199254740991 971"
  "float_of_int (2 ^ 1024 - 2 ^ 970) = PInf"
  by code_simp+

lemma nan_comparisons:
  "\<not> fle NaN x" "\<not> fle x NaN" "\<not> flt NaN x" "\<not> flt x NaN" "\<not> fgt NaN x" "\<not> fgt x NaN"
  by (cases x; simp add: fgt_def)+

section \<open>Rounding errors of the float operations\<close>

































section \<open>Facts about validation and the two branches of \<open>predict\<close>\<close>

lemma update_not_Nil: "AList.update k v al \<noteq> []"
  by (cases al) auto

lemma check_avg_glucose_ok:
  assumes "check_avg_glucose v st = ([], p)"
  shows "fst st = [] \<and> (\<exists>a. v = Some a \<and> \<not> fle a zero \<and> p = AList.update ''avg_glucose'' a (snd st))"
  using assms
  by (cases st) (auto simp: check_avg_glucose_def update_not_Nil split: option.splits if_splits)

lemma check_glucose_sd_ok:
  assumes "check_glucose_sd v st = ([], p)"
  shows "fst st = [] \<and> (\<exists>a. v = Some a \<and> \<not> flt a zero \<and> p = AList.update ''glucose_sd'' a (snd st))"
  using assms
  by (cases st) (auto simp: check_glucose_sd_def update_not_Nil split: option.splits if_splits)

lemma check_difficulty_ok:
  assumes "check_difficulty v st = ([], p)"
  shows "fst st = [] \<and> (\<exists>a. v = Some a \<and> fle one a \<and> fle a (Fin 5 1) \<and> p = AList.update ''difficulty'' a (snd st))"
  using assms
  by (cases st) (auto simp: check_difficulty_def update_not_Nil split: option.splits if_splits)

lemma check_score_ok:
  assumes "check_score v st = ([], p)"
  shows "fst st = [] \<and> (\<exists>a. v = Some a \<and> fle zero a \<and> fle a (Fin 25 2) \<and> p = AList.update ''score'' a (snd st))"
  using assms
  by (cases st) (auto simp: check_score_def update_not_Nil split: option.splits if_splits)

lemma bind_Inr: "bind r f = Inr v \<longleftrightarrow> (\<exists>u. r = Inr u \<and> f u = Inr v)"
  by (cases r) (auto simp: bind_def)

lemma validate_predict_ok:
  assumes "validate_predict R data = Inr ([], parsed)"
  shows "\<exists>a sd d. parsed = [(''avg_glucose'', a), (''glucose_sd'', sd), (''difficulty'', d)]
           \<and> field R data ''avg_glucose'' = Inr (Some a)
           \<and> field R data ''glucose_sd'' = Inr (Some sd)
           \<and> field R data ''difficulty'' = Inr (Some d)
           \<and> \<not> fle a zero \<and> \<not> flt sd zero \<and> fle one d \<and> fle d (Fin 5 1)"
proof -
  from assms obtain v1 v2 v3 where
    f: "field R data ''avg_glucose'' = Inr v1" "field R data ''glucose_sd'' = Inr v2"
       "field R data ''difficulty'' = Inr v3"
    and c: "check_difficulty v3 (check_glucose_sd v2 (check_avg_glucose v1 ([], []))) = ([], parsed)"
    unfolding validate_predict_def bind_Inr Let_def by auto
  obtain e2 p2 where s2: "check_glucose_sd v2 (check_avg_glucose v1 ([], [])) = (e2, p2)"
    by (cases "check_glucose_sd v2 (check_avg_glucose v1 ([], []))")
  obtain e1 p1 where s1: "check_avg_glucose v1 ([], []) = (e1, p1)"
    by (cases "check_avg_glucose v1 ([], [])")
  from check_difficulty_ok[OF c[unfolded s2]] obtain d where
    d: "e2 = []" "v3 = Some d" "fle one d" "fle d (Fin 5 1)" "parsed = AList.update ''difficulty'' d p2"
    by auto
  from check_glucose_sd_ok[OF s2[unfolded s1 d(1)]] obtain sd where
    sd: "e1 = []" "v2 = Some sd" "\<not> flt sd zero" "p2 = AList.update ''glucose_sd'' sd p1"
    by auto
  from check_avg_glucose_ok[OF s1[unfolded sd(1)]] obtain a where
    a: "v1 = Some a" "\<not> fle a zero" "p1 = AList.update ''avg_glucose'' a []"
    by auto
  show ?thesis using f d sd a by simp
qed

lemma validate_entry_ok:
  assumes "validate_entry R data = Inr ([], parsed)"
  shows "\<exists>a sd d sc. parsed = [(''avg_glucose'', a), (''glucose_sd'', sd), (''difficulty'', d), (''score'', sc)]
           \<and> field R data ''avg_glucose'' = Inr (Some a)
           \<and> field R data ''glucose_sd'' = Inr (Some sd)
           \<and> field R data ''difficulty'' = Inr (Some d)
           \<and> field R data ''score'' = Inr (Some sc)
           \<and> \<not> fle a zero \<and> \<not> flt sd zero \<and> fle one d \<and> fle d (Fin 5 1)
           \<and> fle zero sc \<and> fle sc (Fin 25 2)"
proof -
  from assms obtain v1 v2 v3 v4 where
    f: "field R data ''avg_glucose'' = Inr v1" "field R data ''glucose_sd'' = Inr v2"
       "field R data ''difficulty'' = Inr v3" "field R data ''score'' = Inr v4"
    and c: "check_score v4 (check_difficulty v3 (check_glucose_sd v2 (check_avg_glucose v1 ([], [])))) = ([], parsed)"
    unfolding validate_entry_def bind_Inr Let_def by auto
  obtain e3 p3 where s3: "check_difficulty v3 (check_glucose_sd v2 (check_avg_glucose v1 ([], []))) = (e3, p3)"
    by (cases "check_difficulty v3 (check_glucose_sd v2 (check_avg_glucose v1 ([], [])))")
  obtain e2 p2 where s2: "check_glucose_sd v2 (check_avg_glucose v1 ([], [])) = (e2, p2)"
    by (cases "check_glucose_sd v2 (check_avg_glucose v1 ([], []))")
  obtain e1 p1 where s1: "check_avg_glucose v1 ([], []) = (e1, p1)"
    by (cases "check_avg_glucose v1 ([], [])")
  from check_score_ok[OF c[unfolded s3]] obtain sc where
    sc: "e3 = []" "v4 = Some sc" "fle zero sc" "fle sc (Fin 25 2)" "parsed = AList.update ''score'' sc p3"
    by auto
  from check_difficulty_ok[OF s3[unfolded s2 sc(1)]] obtain d where
    d: "e2 = []" "v3 = Some d" "fle one d" "fle d (Fin 5 1)" "p3 = AList.update ''difficulty'' d p2"
    by auto
  from check_glucose_sd_ok[OF s2[unfolded s1 d(1)]] obtain sd where
    sd: "e1 = []" "v2 = Some sd" "\<not> flt sd zero" "p2 = AList.update ''glucose_sd'' sd p1"
    by auto
  from check_avg_glucose_ok[OF s1[unfolded sd(1)]] obtain a where
    a: "v1 = Some a" "\<not> fle a zero" "p1 = AList.update ''avg_glucose'' a []"
    by auto
  show ?thesis using f sc d sd a by simp
qed

lemma not_fle_zero: "\<not> fle a zero \<Longrightarrow> fgt a zero \<or> a = NaN"
  by (cases a) (auto simp: fgt_def zero_def Let_def mult_le_0_iff zero_less_mult_iff)

lemma not_flt_zero: "\<not> flt a zero \<Longrightarrow> fle zero a \<or> a = NaN"
  by (cases a) (auto simp: zero_def Let_def mult_less_0_iff zero_le_mult_iff)

text \<open>
  What the validators do guarantee: a value that is accepted lies in its range, or it is
  NaN in \<open>avg_glucose\<close> or \<open>glucose_sd\<close>.
\<close>

lemma validate_predict_range:
  assumes "validate_predict R data = Inr ([], parsed)"
  shows "\<exists>a sd d. parsed = [(''avg_glucose'', a), (''glucose_sd'', sd), (''difficulty'', d)]
           \<and> (fgt a zero \<or> a = NaN) \<and> (fle zero sd \<or> sd = NaN)
           \<and> fle one d \<and> fle d (Fin 5 1)"
  using validate_predict_ok[OF assms] not_fle_zero not_flt_zero by blast

lemma validate_entry_range:
  assumes "validate_entry R data = Inr ([], parsed)"
  shows "\<exists>a sd d sc. parsed = [(''avg_glucose'', a), (''glucose_sd'', sd), (''difficulty'', d),
                                 (''score'', sc)]
           \<and> (fgt a zero \<or> a = NaN) \<and> (fle zero sd \<or> sd = NaN)
           \<and> fle one d \<and> fle d (Fin 5 1) \<and> fle zero sc \<and> fle sc (Fin 25 2)"
  using validate_entry_ok[OF assms] not_fle_zero not_flt_zero by blast

lemma flt_zero_not_is_zero: "flt zero x \<Longrightarrow> \<not> is_zero x"
  by (cases x) (auto simp: zero_def is_zero_def Let_def)

lemma py_round_zero: "py_round zero nd = zero"
  by (simp add: zero_def)

lemma predict_fallback:
  assumes v: "validate_predict R (body_or_empty req) = Inr ([], parsed)"
    and n: "length (fetch_entries tbl) < 3"
  shows "predict R req tbl =
     (if fetch_entries tbl \<noteq> [] then
        Json200 \<lparr>predicted_score = py_round (np_mean (map score (fetch_entries tbl))) 2,
                 model = \<lparr>model_type = ''multivariate_linear_regression'',
                          coefficients = \<lparr>coef_intercept = zero, coef_avg_glucose = zero,
                                           coef_glucose_sd = zero, coef_difficulty = zero\<rparr>,
                          n_training_rows = length (fetch_entries tbl), r2 = None\<rparr>,
                 notes = [''Not enough data for regression (need at least 3 rows). Returning mean score of existing entries.'']\<rparr>
      else
        Json200 \<lparr>predicted_score = zero,
                 model = \<lparr>model_type = ''multivariate_linear_regression'',
                          coefficients = \<lparr>coef_intercept = zero, coef_avg_glucose = zero,
                                           coef_glucose_sd = zero, coef_difficulty = zero\<rparr>,
                          n_training_rows = 0, r2 = None\<rparr>,
                 notes = [''No data yet. Returning 0 as a placeholder prediction until entries exist.'']\<rparr>)"
  using v n by (simp add: predict_def Let_def py_round_zero)

lemma predict_regression:
  assumes v: "validate_predict R (body_or_empty req) = Inr ([], parsed)"
    and n: "3 \<le> length (fetch_entries tbl)"
    and x: "x = map (\<lambda>entry. [one, avg_glucose entry, glucose_sd entry, difficulty entry]) (fetch_entries tbl)"
    and y: "y = map score (fetch_entries tbl)"
    and l: "lstsq R x y = Inr [c0, c1, c2, c3]"
    and t: "ss_tot = np_sum (map (\<lambda>yi. fmul (fsub yi (np_mean y)) (fsub yi (np_mean y))) y)"
    and r: "ss_res = np_sum (map2 (\<lambda>yi pi. fmul (fsub yi pi) (fsub yi pi)) y
                       (map (\<lambda>row. dot R row [c0, c1, c2, c3]) x))"
  shows "\<exists>a sd d. parsed = [(''avg_glucose'', a), (''glucose_sd'', sd), (''difficulty'', d)] \<and>
     predict R req tbl =
       Json200 \<lparr>predicted_score =
                  py_round (fadd (fadd (fadd c0 (fmul c1 a)) (fmul c2 sd)) (fmul c3 d)) 2,
                model = \<lparr>model_type = ''multivariate_linear_regression'',
                         coefficients = \<lparr>coef_intercept = c0, coef_avg_glucose = c1,
                                          coef_glucose_sd = c2, coef_difficulty = c3\<rparr>,
                         n_training_rows = length (fetch_entries tbl),
                         r2 = (if fgt ss_tot zero
                               then Some (py_round (fsub one (fdiv ss_res ss_tot)) 4)
                               else None)\<rparr>,
                notes = []\<rparr>"
proof -
  from validate_predict_ok[OF v] obtain a sd d where
    p: "parsed = [(''avg_glucose'', a), (''glucose_sd'', sd), (''difficulty'', d)]"
    by blast
  have nz: "fgt ss_tot zero \<Longrightarrow> \<not> is_zero ss_tot"
    by (simp add: fgt_def flt_zero_not_is_zero)
  have "predict R req tbl =
       Json200 \<lparr>predicted_score =
                  py_round (fadd (fadd (fadd c0 (fmul c1 a)) (fmul c2 sd)) (fmul c3 d)) 2,
                model = \<lparr>model_type = ''multivariate_linear_regression'',
                         coefficients = \<lparr>coef_intercept = c0, coef_avg_glucose = c1,
                                          coef_glucose_sd = c2, coef_difficulty = c3\<rparr>,
                         n_training_rows = length (fetch_entries tbl),
                         r2 = (if fgt ss_tot zero
                               then Some (py_round (fsub one (fdiv ss_res ss_tot)) 4)
                               else None)\<rparr>,
                notes = []\<rparr>"
    using v n l[unfolded x y] nz[unfolded t y] 
    by (simp add: predict_def Let_def p lookup_def bind_def py_truediv_def t r x y)
  with p show ?thesis by blast
qed

lemma predict_Json200:
  assumes "predict R req tbl = Json200 p"
  shows "(\<exists>parsed. validate_predict R (body_or_empty req) = Inr ([], parsed))
         \<and> n_training_rows (model p) = length (fetch_entries tbl)
         \<and> model_type (model p) = ''multivariate_linear_regression''
         \<and> (3 \<le> length (fetch_entries tbl) \<longrightarrow> notes p = [])"
  using assms
  by (auto simp: predict_def Let_def bind_def lookup_def
           split: sum.splits prod.splits if_splits list.splits option.splits)

subsection \<open>The design matrix and the fit\<close>










section \<open>The empty history\<close>

text \<open>
  C6.  With no row in the table, a valid prediction request is answered with
  \<open>predicted_score\<close> 0.0, \<open>n_training_rows\<close> 0 and a non-empty list of notes that holds
  the advisory that no data exists yet.
\<close>

theorem predict_empty_history:
  assumes "validate_predict R (body_or_empty req) = Inr ([], parsed)"
    and "fetch_entries tbl = []"
  shows "\<exists>p. predict R req tbl = Json200 p \<and> predicted_score p = zero
             \<and> n_training_rows (model p) = 0
             \<and> notes p \<noteq> []
             \<and> ''No data yet. Returning 0 as a placeholder prediction until entries exist.'' \<in> set (notes p)"
  using predict_fallback[OF assms(1), of tbl] assms(2) by simp

theorem predict_empty_history_witness:
  "validate_predict example_runtime (body_or_empty query) = Inr ([], query_parsed)
   \<and> fetch_entries [] = []
   \<and> (\<exists>p. predict example_runtime query [] = Json200 p \<and> predicted_score p = zero
             \<and> n_training_rows (model p) = 0
             \<and> notes p \<noteq> []
             \<and> ''No data yet. Returning 0 as a placeholder prediction until entries exist.'' \<in> set (notes p))"
proof -
  have v: "validate_predict example_runtime (body_or_empty query) = Inr ([], query_parsed)"
    by code_simp
  have e: "fetch_entries [] = []"
    by code_simp
  from predict_empty_history[OF v e] v e show ?thesis by blast
qed

section \<open>The mean fallback\<close>




section \<open>The regression branch\<close>




text \<open>
  C9.  With three or more rows in the table, the answer to a prediction request carries
  no notes.
\<close>

theorem regression_no_notes:
  assumes "3 \<le> length (fetch_entries tbl)" and "predict R req tbl = Json200 p"
  shows "notes p = []"
  using predict_Json200[OF assms(2)] assms(1) by simp

theorem regression_no_notes_witness:
  "3 \<le> length (fetch_entries scenario_tbl)
   \<and> (\<exists>p. predict example_runtime float_query scenario_tbl = Json200 p \<and> notes p = [])"
proof -
  have v: "validate_predict example_runtime (body_or_empty float_query) = Inr ([], query_parsed)"
    by code_simp
  have n: "3 \<le> length (fetch_entries scenario_tbl)"
    by code_simp
  have l: "lstsq example_runtime
             (map (\<lambda>entry. [one, avg_glucose entry, glucose_sd entry, difficulty entry])
                (fetch_entries scenario_tbl))
             (map score (fetch_entries scenario_tbl)) = Inr [Fin 5 4, zero, zero, zero]"
    by code_simp
  from predict_regression[OF v n refl refl l refl refl]
  obtain p where p: "predict example_runtime float_query scenario_tbl = Json200 p"
    by blast
  from regression_no_notes[OF n p] p n show ?thesis by blast
qed

section \<open>An infinite value in the history\<close>



section \<open>Recording an observation\<close>

text \<open>
  C10.  A request to record an observation that fails validation is answered with the
  error mapping, and the table is left as it was.
\<close>

theorem add_entry_invalid_unchanged:
  assumes "validate_entry R (body_or_empty req) = Inr (errors, parsed)" and "errors \<noteq> []"
  shows "add_entry R now req tbl = (Json400 errors, tbl)"
  using assms by (simp add: add_entry_def Let_def)

theorem add_entry_invalid_unchanged_witness:
  "validate_entry example_runtime (body_or_empty bad_entry)
     = Inr (bad_entry_errors, [(''glucose_sd'', Fin 5 1), (''score'', Fin 35 1)])
   \<and> bad_entry_errors \<noteq> []
   \<and> add_entry example_runtime ''2024-05-22T09:00:00+00:00'' bad_entry scenario_tbl
       = (Json400 bad_entry_errors, scenario_tbl)"
proof -
  have v: "validate_entry example_runtime (body_or_empty bad_entry)
             = Inr (bad_entry_errors, [(''glucose_sd'', Fin 5 1), (''score'', Fin 35 1)])"
    by code_simp
  have e: "bad_entry_errors \<noteq> []"
    by (simp add: bad_entry_errors_def)
  from add_entry_invalid_unchanged[OF v e] v e show ?thesis by blast
qed

lemma add_entry_unchanged_unless_created:
  assumes "add_entry R now req tbl = (resp, tbl')" and "\<forall>row. resp \<noteq> Json201 row"
  shows "tbl' = tbl"
  using assms
  by (auto simp: add_entry_def Let_def split: sum.splits prod.splits if_splits)

lemma add_entry_Json201:
  assumes "add_entry R now req tbl = (Json201 row, tbl')"
  shows "tbl' = tbl @ [row] \<and> created_at row = now \<and> entry_id row = next_id tbl"
  using assms
  by (auto simp: add_entry_def Let_def bind_def sql_insert_def
           split: sum.splits prod.splits if_splits)

lemma fold_max_ge: "(a::int) \<le> fold max xs a"
  by (induction xs arbitrary: a) (auto intro: order_trans[OF max.cobounded2])

lemma fold_max_mem: "(x::int) \<in> set xs \<Longrightarrow> x \<le> fold max xs a"
proof (induction xs arbitrary: a)
  case Nil
  then show ?case by simp
next
  case (Cons y ys)
  show ?case
  proof (cases "x = y")
    case True
    have "y \<le> max y a" by simp
    also have "\<dots> \<le> fold max ys (max y a)" by (rule fold_max_ge)
    finally show ?thesis using True by simp
  next
    case False
    with Cons show ?thesis by simp
  qed
qed

lemma next_id_fresh: "r \<in> set tbl \<Longrightarrow> entry_id r < next_id tbl"
  using fold_max_mem[of "entry_id r" "map entry_id tbl" 0] by (simp add: next_id_def)

lemma sorted_key_precedes:
  fixes key :: "'a \<Rightarrow> 'k::linorder"
  assumes s: "sorted (map key xs)" and a: "a \<in> set xs" and b: "b \<in> set xs"
    and lt: "key a < key b"
  shows "\<exists>us vs ws. xs = us @ a # vs @ b # ws \<and> b \<notin> set us"
proof -
  from a obtain us rest where xs: "xs = us @ a # rest"
    by (auto dest: split_list)
  from s xs have "\<forall>u \<in> set us. key u \<le> key a"
    by (auto simp: sorted_append)
  with lt have nb: "b \<notin> set us" by auto
  from lt have "b \<noteq> a" by auto
  with b xs nb have "b \<in> set rest" by auto
  then obtain vs ws where "rest = vs @ b # ws"
    by (auto dest: split_list)
  with xs nb show ?thesis by auto
qed

text \<open>
  After two successful appends the snapshot is sorted by \<open>created_at\<close> and then by \<open>id\<close>,
  and holds the earlier rows and the two new ones.  When the \<open>created_at\<close> text of the
  second is not smaller than that of the first, the first observation precedes the
  second; equal timestamps are ordered by \<open>id\<close>.  A prediction afterwards reports the
  updated number of rows.
\<close>

lemma append_then_snapshot:
  assumes a1: "add_entry R now1 req1 tbl = (Json201 o1, tbl1)"
    and a2: "add_entry R now2 req2 tbl1 = (Json201 o2, tbl2)"
    and t: "now1 \<le> now2"
    and p: "predict R req tbl2 = Json200 p"
  shows "sorted (map (\<lambda>r. (created_at r, entry_id r)) (fetch_entries tbl2))
       \<and> mset (fetch_entries tbl2) = mset tbl + {#o1, o2#}
       \<and> (\<exists>us vs ws. fetch_entries tbl2 = us @ o1 # vs @ o2 # ws \<and> o2 \<notin> set us)
       \<and> n_training_rows (model p) = length tbl + 2"
proof -
  from add_entry_Json201[OF a1] have 1: "tbl1 = tbl @ [o1]" "created_at o1 = now1"
    "entry_id o1 = next_id tbl" by auto
  from add_entry_Json201[OF a2] have 2: "tbl2 = tbl1 @ [o2]" "created_at o2 = now2"
    "entry_id o2 = next_id tbl1" by auto
  have srt: "sorted (map (\<lambda>r. (created_at r, entry_id r)) (fetch_entries tbl2))"
    by (simp add: fetch_entries_def)
  have ms: "mset (fetch_entries tbl2) = mset tbl + {#o1, o2#}"
    using 1 2 by (simp add: fetch_entries_def)
  have st: "set (fetch_entries tbl2) = set tbl \<union> {o1, o2}"
    using 1 2 by (auto simp: fetch_entries_def)
  have ln: "length (fetch_entries tbl2) = length tbl + 2"
    using 1 2 by (simp add: fetch_entries_def)
  have "entry_id o1 < entry_id o2"
    using next_id_fresh[of o1 tbl1] 1 2 by simp
  with t 1 2 have lt: "(created_at o1, entry_id o1) < (created_at o2, entry_id o2)"
    by (auto simp: less_prod_def)
  have pr: "\<exists>us vs ws. fetch_entries tbl2 = us @ o1 # vs @ o2 # ws \<and> o2 \<notin> set us"
    by (rule sorted_key_precedes[OF srt _ _ lt]) (simp_all add: st)
  have "n_training_rows (model p) = length (fetch_entries tbl2)"
    using predict_Json200[OF p] by simp
  with srt ms ln pr show ?thesis by simp
qed

lemma append_same_timestamp:
  "add_entry example_runtime ''2024-05-22T09:00:00+00:00'' obs_a [] = (Json201 same_row1, [same_row1])
   \<and> add_entry example_runtime ''2024-05-22T09:00:00+00:00'' obs_b [same_row1]
        = (Json201 same_row2, [same_row1, same_row2])
   \<and> created_at same_row1 = created_at same_row2
   \<and> fetch_entries [same_row1, same_row2] = [same_row1, same_row2]
   \<and> (\<exists>us vs ws. fetch_entries [same_row1, same_row2] = us @ same_row1 # vs @ same_row2 # ws
          \<and> same_row2 \<notin> set us)
   \<and> (\<exists>p. predict example_runtime query [same_row1, same_row2] = Json200 p
          \<and> n_training_rows (model p) = 2)"
proof -
  have a1: "add_entry example_runtime ''2024-05-22T09:00:00+00:00'' obs_a []
              = (Json201 same_row1, [same_row1])"
    by code_simp
  have a2: "add_entry example_runtime ''2024-05-22T09:00:00+00:00'' obs_b [same_row1]
              = (Json201 same_row2, [same_row1, same_row2])"
    by code_simp
  have c: "created_at same_row1 = created_at same_row2"
    by (simp add: same_row1_def same_row2_def)
  have f: "fetch_entries [same_row1, same_row2] = [same_row1, same_row2]"
    by code_simp
  have v: "validate_predict example_runtime (body_or_empty query) = Inr ([], query_parsed)"
    by code_simp
  have n: "length (fetch_entries [same_row1, same_row2]) < 3"
    by (simp add: f)
  from predict_fallback[OF v n]
  obtain p where p: "predict example_runtime query [same_row1, same_row2] = Json200 p"
    by (simp split: if_splits)
  from append_then_snapshot[OF a1 a2 order_refl p] a1 a2 c f p show ?thesis
    by auto
qed

text \<open>
  C5.  The snapshot is meant to be in order of creation time, but \<open>created_at\<close> is the
  text that \<open>now_iso\<close> writes, local time followed by the UTC offset, and the rows are
  sorted by that text.  Here the second observation is recorded forty minutes after the
  first, and the local zone has gone from +02:00 to +01:00 in between: the later
  observation gets the smaller text and comes first in the snapshot.
\<close>

theorem later_append_sorts_first:
  "dst_utc1 < dst_utc2
   \<and> now_iso dst_utc1 120 = ''2024-10-27T02:30:00.250000+02:00''
   \<and> now_iso dst_utc2 60 = ''2024-10-27T02:10:00.750000+01:00''
   \<and> add_entry example_runtime (now_iso dst_utc1 120) obs_a [] = (Json201 dst_row1, [dst_row1])
   \<and> add_entry example_runtime (now_iso dst_utc2 60) obs_b [dst_row1]
       = (Json201 dst_row2, [dst_row1, dst_row2])
   \<and> fetch_entries [dst_row1, dst_row2] = [dst_row2, dst_row1]"
  by code_simp

section \<open>NaN at the validation boundary\<close>

text \<open>
  C7.  NaN is neither \<open>> 0\<close> nor \<open>>= 0\<close>, but the checks \<open>avg_glucose <= 0\<close> and
  \<open>glucose_sd < 0\<close> are false for it as well: a prediction request with NaN in both
  fields passes \<open>validate_predict\<close> and is answered with status 200, and an observation
  with NaN in \<open>avg_glucose\<close> passes \<open>validate_entry\<close> and reaches the insert, which the
  database refuses.
\<close>

theorem nan_passes_validation:
  "\<not> fgt NaN zero \<and> \<not> fle zero NaN
   \<and> validate_predict R (body_or_empty nan_query)
       = Inr ([], [(''avg_glucose'', NaN), (''glucose_sd'', NaN), (''difficulty'', Fin 3 1)])
   \<and> (\<exists>p. predict R nan_query [] = Json200 p)
   \<and> add_entry R now nan_entry tbl = (Raised IntegrityError, tbl)"
proof -
  have c: "\<not> fgt NaN zero" "\<not> fle zero NaN"
    by (simp_all add: fgt_def zero_def)
  have d: "float_of_int 6 = Fin 3 1" "float_of_int 10 = Fin 5 1" "float_of_int 3 = Fin 3 0"
    "float_of_int 70 = Fin 35 1"
    by code_simp+
  have g: "fle one (Fin 3 1)" "fle (Fin 3 1) (Fin 5 1)" "\<not> flt (Fin 5 1) zero"
    "fle one (Fin 3 0)" "fle (Fin 3 0) (Fin 5 1)" "fle zero (Fin 35 1)" "fle (Fin 35 1) (Fin 25 2)"
    by code_simp+
  have v: "validate_predict R (body_or_empty nan_query)
       = Inr ([], [(''avg_glucose'', NaN), (''glucose_sd'', NaN), (''difficulty'', Fin 3 1)])"
    by (simp add: validate_predict_def body_or_empty_def nan_query_def field_def dict_get_def
          bind_def Let_def check_avg_glucose_def check_glucose_sd_def check_difficulty_def d g)
  have e: "fetch_entries [] = []"
    by (simp add: fetch_entries_def)
  have p: "\<exists>p. predict R nan_query [] = Json200 p"
    using predict_fallback[OF v, of "[]"] e by simp
  have w: "validate_entry R (body_or_empty nan_entry)
       = Inr ([], [(''avg_glucose'', NaN), (''glucose_sd'', Fin 5 1), (''difficulty'', Fin 3 0),
                   (''score'', Fin 35 1)])"
    by (simp add: validate_entry_def body_or_empty_def nan_entry_def field_def dict_get_def
          bind_def Let_def check_avg_glucose_def check_glucose_sd_def check_difficulty_def
          check_score_def d g)
  have a: "add_entry R now nan_entry tbl = (Raised IntegrityError, tbl)"
    by (simp add: add_entry_def Let_def w lookup_def bind_def sql_insert_def is_nan_def)
  from c v p a show ?thesis by simp
qed

theorem nan_passes_validation_witness:
  "validate_predict example_runtime (body_or_empty nan_query)
       = Inr ([], [(''avg_glucose'', NaN), (''glucose_sd'', NaN), (''difficulty'', Fin 3 1)])
   \<and> (\<exists>p. predict example_runtime nan_query [] = Json200 p)
   \<and> add_entry example_runtime ''2024-05-22T09:00:00+00:00'' nan_entry scenario_tbl
       = (Raised IntegrityError, scenario_tbl)"
  using nan_passes_validation[of example_runtime "''2024-05-22T09:00:00+00:00''" scenario_tbl]
  by blast

section \<open>The coefficient of determination\<close>

lemma identical_snapshot:
  "fetch_entries identical_tbl = identical_tbl"
  by code_simp

lemma identical_design:
  "map (\<lambda>entry. [one, avg_glucose entry, glucose_sd entry, difficulty entry])
     (fetch_entries identical_tbl) = identical_x"
  unfolding identical_snapshot by (simp add: identical_tbl_def identical_x_def)

lemma identical_scores:
  "map score (fetch_entries identical_tbl) = [score_85_4, score_85_4, score_85_4]"
  unfolding identical_snapshot by (simp add: identical_tbl_def)

lemma identical_mean: "np_mean [score_85_4, score_85_4, score_85_4] = Fin 6009490752772507 (- 46)"
  by code_simp

lemma identical_ss_tot:
  "np_sum (map (\<lambda>yi. fmul (fsub yi (np_mean [score_85_4, score_85_4, score_85_4]))
                           (fsub yi (np_mean [score_85_4, score_85_4, score_85_4])))
             [score_85_4, score_85_4, score_85_4]) = Fin 3 (- 92)"
  by code_simp

lemma ss_tot_positive: "fgt (Fin 3 (- 92)) zero"
  by code_simp

text \<open>
  C3.  Three stored observations with the same score 85.4: the float mean of the three
  scores is 85.40000000000002, the total sum of squares comes out as \<open>3 * 2 ^ -92\<close>, which
  is greater than zero, and \<open>r2\<close> is computed instead of being reported as null, whatever
  coefficients the fit returns.
\<close>

theorem identical_scores_r2:
  assumes "validate_predict R (body_or_empty req) = Inr ([], parsed)"
    and "lstsq R identical_x [score_85_4, score_85_4, score_85_4] = Inr [c0, c1, c2, c3]"
  shows "map score (fetch_entries identical_tbl) = [score_85_4, score_85_4, score_85_4]
       \<and> (\<exists>p. predict R req identical_tbl = Json200 p \<and> r2 (model p) \<noteq> None)"
proof -
  have n: "3 \<le> length (fetch_entries identical_tbl)"
    unfolding identical_snapshot by (simp add: identical_tbl_def)
  from predict_regression[OF assms(1) n identical_design[symmetric] identical_scores[symmetric]
      assms(2) identical_ss_tot[symmetric] refl]
  show ?thesis
    using ss_tot_positive identical_scores by auto
qed

theorem identical_scores_r2_witness:
  "validate_predict example_runtime (body_or_empty query) = Inr ([], query_parsed)
   \<and> lstsq example_runtime identical_x [score_85_4, score_85_4, score_85_4]
       = Inr [Fin 6009490752772507 (- 46), zero, zero, zero]
   \<and> map score (fetch_entries identical_tbl) = [score_85_4, score_85_4, score_85_4]
   \<and> (\<exists>p. predict example_runtime query identical_tbl = Json200 p \<and> r2 (model p) \<noteq> None)"
proof -
  have v: "validate_predict example_runtime (body_or_empty query) = Inr ([], query_parsed)"
    by code_simp
  have l: "lstsq example_runtime identical_x [score_85_4, score_85_4, score_85_4]
       = Inr [Fin 6009490752772507 (- 46), zero, zero, zero]"
    by code_simp
  from identical_scores_r2[OF v l] v l show ?thesis by blast
qed

end
